theory Spec2Isabelle
  imports Main
begin

section \<open>Go values shared by the toolkit's operations\<close>

text \<open>
  Go strings and byte slices are modelled as \<open>string\<close> (a list of 8-bit characters).
  A Go \<open>error\<close> is a value of the datatype \<open>error\<close>; the Go value \<open>nil\<close> of type
  \<open>error\<close> is \<open>None\<close> of \<open>error option\<close>. An error built by \<open>fmt.Errorf\<close> keeps its
  format string and its arguments, so no formatting routine has to be modelled.
  A runtime panic is a value of \<open>go_panic\<close>, returned on the left of a sum.
\<close>

datatype fmt_arg = ArgInt int | ArgString string

datatype error =
    errors_New string
  | fmt_Errorf string "fmt_arg list"
  | io_EOF
  | io_ErrUnexpectedEOF
  | json_SyntaxError string int
  | json_UnmarshalTypeError string string int
  | json_InvalidUnmarshalError string
  | os_ErrNotExist string
  | os_OtherError string

datatype go_panic =
    IndexOutOfRange nat nat
  | NilPointerDereference
  | MakesliceLenOutOfRange

section \<open>Slugify\<close>

text \<open>
  The regular expression engine and \<open>strings.ToLower\<close> work on the code points (runes) of
  the string, so \<open>Slugify\<close> is modelled on the list of runes of its argument, a rune being
  its code point number. \<open>runes\<close> reads an ASCII literal as such a list.
\<close>

type_synonym rune = nat

definition runes :: "string \<Rightarrow> rune list" where
  "runes s = map of_char s"

definition hyphen :: rune where
  "hyphen = 45"

text \<open>
  \<open>unicode.ToLower\<close>: on ASCII it adds 32 to the letters \<open>A\<close> to \<open>Z\<close> and leaves every other
  code point alone; beyond ASCII it follows the Unicode tables, which are the parameter
  \<open>uni\<close>. \<open>strings.ToLower\<close> maps it over the runes of the string.
\<close>

definition unicode_ToLower :: "(rune \<Rightarrow> rune) \<Rightarrow> rune \<Rightarrow> rune" where
  "unicode_ToLower uni c =
     (if c < 128 then (if 65 \<le> c \<and> c \<le> 90 then c + 32 else c) else uni c)"

definition strings_ToLower :: "(rune \<Rightarrow> rune) \<Rightarrow> rune list \<Rightarrow> rune list" where
  "strings_ToLower uni s = map (unicode_ToLower uni) s"

text \<open>The character class \<open>[a-z\d]\<close> of the regular expression; \<open>\d\<close> is \<open>[0-9]\<close> in Go.\<close>

definition in_class :: "rune \<Rightarrow> bool" where
  "in_class c \<longleftrightarrow> (97 \<le> c \<and> c \<le> 122) \<or> (48 \<le> c \<and> c \<le> 57)"

text \<open>
  \<open>regEx.ReplaceAllString(src, repl)\<close> for the expression \<open>[^a-z\d]+\<close>: scanning from the
  left, a rune of the class is copied; at a rune outside the class the greedy \<open>+\<close> takes
  every following rune outside the class as well, and the match is replaced by \<open>repl\<close>
  (which holds no \<open>$\<close> here, so it is copied as it is).
\<close>

function ReplaceAllString :: "rune list \<Rightarrow> rune list \<Rightarrow> rune list" where
  "ReplaceAllString [] repl = []"
| "ReplaceAllString (c # cs) repl =
     (if in_class c then c # ReplaceAllString cs repl
      else repl @ ReplaceAllString (dropWhile (\<lambda>x. \<not> in_class x) cs) repl)"
  by pat_completeness auto
termination
  by (relation "measure (\<lambda>(s, repl). length s)")
     (auto simp: less_Suc_eq_le length_dropWhile_le)

text \<open>\<open>strings.Trim(s, cutset)\<close> removes the leading and the trailing runes held in \<open>cutset\<close>.\<close>

definition strings_Trim :: "rune list \<Rightarrow> rune list \<Rightarrow> rune list" where
  "strings_Trim s cutset =
     rev (dropWhile (\<lambda>c. c \<in> set cutset) (rev (dropWhile (\<lambda>c. c \<in> set cutset) s)))"

definition Slugify :: "(rune \<Rightarrow> rune) \<Rightarrow> rune list \<Rightarrow> rune list \<times> error option" where
  "Slugify uni s =
     (if s = [] then ([], Some (errors_New ''empty string not permitted''))
      else
        let slug = strings_Trim (ReplaceAllString (strings_ToLower uni s) [hyphen]) [hyphen]
        in if length slug = 0
           then ([], Some (errors_New ''after removing characters, slug is zero length''))
           else (slug, None))"

subsection \<open>The transform as the specification words it\<close>

text \<open>
  The specification's wording, kept apart from the code: cut the lower-cased input into
  its maximal runs of runes that agree on membership in the class, replace every run
  outside the class by one hyphen, then remove the hyphens at both ends.
\<close>

function maximal_runs :: "('a \<Rightarrow> bool) \<Rightarrow> 'a list \<Rightarrow> 'a list list" where
  "maximal_runs P [] = []"
| "maximal_runs P (x # xs) =
     (x # takeWhile (\<lambda>y. P y = P x) xs) # maximal_runs P (dropWhile (\<lambda>y. P y = P x) xs)"
  by pat_completeness auto
termination
  by (relation "measure (\<lambda>(P, xs). length xs)")
     (auto simp: less_Suc_eq_le length_dropWhile_le)

definition hyphenate_run :: "rune list \<Rightarrow> rune list" where
  "hyphenate_run r = (if in_class (hd r) then r else [hyphen])"

fun drop_trailing_hyphens :: "rune list \<Rightarrow> rune list" where
  "drop_trailing_hyphens [] = []"
| "drop_trailing_hyphens (c # cs) =
     (let r = drop_trailing_hyphens cs in if r = [] \<and> c = hyphen then [] else c # r)"

fun drop_leading_hyphens :: "rune list \<Rightarrow> rune list" where
  "drop_leading_hyphens [] = []"
| "drop_leading_hyphens (c # cs) = (if c = hyphen then drop_leading_hyphens cs else c # cs)"

definition slug_transform :: "(rune \<Rightarrow> rune) \<Rightarrow> rune list \<Rightarrow> rune list" where
  "slug_transform uni s =
     drop_trailing_hyphens (drop_leading_hyphens
       (concat (map hyphenate_run (maximal_runs in_class (map (unicode_ToLower uni) s)))))"

text \<open>The two error kinds of the specification name the two errors \<open>Slugify\<close> builds.\<close>

definition EmptyInput :: error where
  "EmptyInput = errors_New ''empty string not permitted''"

definition EmptyResult :: error where
  "EmptyResult = errors_New ''after removing characters, slug is zero length''"

section \<open>RandomString\<close>

definition randomStringSource :: string where
  "randomStringSource = ''abcdefghijklmnopqrstuvwxyzABCDEFGHIJKLMNOPQRSTUVWXYZ0123456789_+''"

text \<open>
  The entropy source is a stream: its element \<open>i\<close> is what the \<open>i\<close>-th coming call of
  \<open>rand.Prime(rand.Reader, 64)\<close> returns, \<open>Some p\<close> for the number \<open>p\<close> and \<open>None\<close> when the
  call fails and returns a nil number with an error. The source drops the error
  (\<open>p, _ := ...\<close>) and calls \<open>p.Uint64()\<close>, which on a nil \<open>*big.Int\<close> is a nil pointer
  dereference.
\<close>

type_synonym entropy = "nat \<Rightarrow> nat option"

definition advance :: "nat \<Rightarrow> entropy \<Rightarrow> entropy" where
  "advance k rnd = (\<lambda>i. rnd (i + k))"

definition Uint64 :: "nat \<Rightarrow> nat" where
  "Uint64 p = p mod 2 ^ 64"

text \<open>
  The loop \<open>for i := range s\<close>, over the \<open>k\<close> positions still to fill: each takes one draw
  \<open>p\<close> and stores \<open>r[x%y]\<close> with \<open>x = p.Uint64()\<close> and \<open>y = len(r)\<close>. The index is below
  \<open>len(r)\<close>, so the read never leaves \<open>r\<close>.
\<close>

fun RandomString_loop :: "entropy \<Rightarrow> nat \<Rightarrow> go_panic + string" where
  "RandomString_loop rnd 0 = Inr []"
| "RandomString_loop rnd (Suc k) =
     (case rnd 0 of
        None \<Rightarrow> Inl NilPointerDereference
      | Some p \<Rightarrow>
          (case RandomString_loop (advance 1 rnd) k of
             Inl e \<Rightarrow> Inl e
           | Inr s \<Rightarrow>
               Inr (randomStringSource ! (Uint64 p mod length randomStringSource) # s)))"

definition RandomString :: "entropy \<Rightarrow> int \<Rightarrow> go_panic + string" where
  "RandomString rnd n =
     (if n < 0 then Inl MakesliceLenOutOfRange else RandomString_loop rnd (nat n))"

text \<open>
  What \<open>rand.Prime(rand.Reader, bits)\<close> can return: a number of exactly \<open>bits\<close> bits whose
  lowest bit is set (the candidates it tests for primality are made odd first). Every
  prime of 64 bits is such a number.
\<close>

definition rand_Prime_result :: "nat \<Rightarrow> nat \<Rightarrow> bool" where
  "rand_Prime_result bits p \<longleftrightarrow> 2 ^ (bits - 1) \<le> p \<and> p < 2 ^ bits \<and> odd p"

definition is_prime :: "nat \<Rightarrow> bool" where
  "is_prime p \<longleftrightarrow> 1 < p \<and> (\<forall>d. d dvd p \<longrightarrow> d = 1 \<or> d = p)"

text \<open>The characters of \<open>randomStringSource\<close> at its odd positions 1, 3, ..., 63.\<close>

definition odd_positions :: string where
  "odd_positions = ''bdfhjlnprtvxzBDFHJLNPRTVXZ13579+''"

section \<open>The upload pipeline\<close>

record Tools =
  MaxFileSize :: int
  AllowedFileTypes :: "string list"
  MaxJSONSize :: int
  AllowUnknownFields :: bool

record UploadedFile =
  NewFileName :: string
  OriginalFileName :: string
  FileSize :: int

text \<open>
  The standard library and the operating system below the toolkit are a parameter of the
  model: a record of the functions the toolkit calls, over a type \<open>'fs\<close> of file system
  states. A call that changes the file system returns the new state. \<open>os_Create\<close> and
  \<open>io_Copy\<close> name the destination file by its path, which stands for the open handle.
\<close>

record 'fs platform =
  os_Stat :: "'fs \<Rightarrow> string \<Rightarrow> error option"
  os_MkdirAll :: "'fs \<Rightarrow> string \<Rightarrow> nat \<Rightarrow> error option \<times> 'fs"
  os_Create :: "'fs \<Rightarrow> string \<Rightarrow> error option \<times> 'fs"
  io_Copy :: "'fs \<Rightarrow> string \<Rightarrow> string \<Rightarrow> (int \<times> error option) \<times> 'fs"
  filepath_Join :: "string \<Rightarrow> string \<Rightarrow> string"
  filepath_Ext :: "string \<Rightarrow> string"
  http_DetectContentType :: "string \<Rightarrow> string"
  strings_EqualFold :: "string \<Rightarrow> string \<Rightarrow> bool"

text \<open>\<open>os.IsNotExist(err)\<close>: the error reports that the file or directory does not exist.\<close>

definition os_IsNotExist :: "error option \<Rightarrow> bool" where
  "os_IsNotExist err = (case err of Some (os_ErrNotExist msg) \<Rightarrow> True | _ \<Rightarrow> False)"

text \<open>The constant \<open>mode = 0755\<close> of \<open>CreateDirIfNotExists\<close>, an octal numeral.\<close>

definition mode :: nat where
  "mode = 7 * 64 + 5 * 8 + 5"

definition CreateDirIfNotExists :: "'fs platform \<Rightarrow> string \<Rightarrow> 'fs \<Rightarrow> error option \<times> 'fs" where
  "CreateDirIfNotExists L path fs =
     (if os_IsNotExist (os_Stat L fs path) then
        (case os_MkdirAll L fs path mode of
           (Some err, fs') \<Rightarrow> (Some err, fs')
         | (None, fs') \<Rightarrow> (None, fs'))
      else (None, fs))"


text \<open>
  A file part of the parsed form. \<open>Open\<close> is what \<open>hdr.Open()\<close> returns. The opened file
  holds its content; \<open>read_error\<close> and \<open>seek_error\<close> are the input/output failures of its
  \<open>Read\<close> and \<open>Seek\<close>, \<open>None\<close> when the medium works. \<open>File_Read f n\<close> is the first
  \<open>infile.Read(buff)\<close> on a fresh buffer of \<open>n\<close> zero bytes: the error, or the buffer after
  the read. A read at the end of the content returns \<open>io.EOF\<close>.
\<close>

record multipart_File =
  content :: string
  read_error :: "error option"
  seek_error :: "error option"

record FileHeader =
  Filename :: string
  Open :: "error + multipart_File"

definition File_Read :: "multipart_File \<Rightarrow> nat \<Rightarrow> error + string" where
  "File_Read f n =
     (case read_error f of
        Some e \<Rightarrow> Inl e
      | None \<Rightarrow>
          if content f = [] then Inl io_EOF
          else Inr (take n (content f) @ replicate (n - length (content f)) (CHR 0x00)))"

text \<open>
  The request: its body, what \<open>r.ParseMultipartForm(maxMemory)\<close> returns, and the map
  \<open>r.MultipartForm.File\<close> of a parsed form as the list of its entries in the order the
  \<open>range\<close> statement visits them (Go leaves that order open, so every order is a list).
\<close>

record Request =
  Body :: string
  ParseMultipartForm :: "int \<Rightarrow> error option"
  MultipartForm_File :: "(string \<times> FileHeader list) list"

text \<open>
  What the operations read and change: the \<open>Tools\<close> value behind the receiver, the file
  system and the entropy source.
\<close>

record 'fs world =
  tools :: Tools
  disk :: 'fs
  rand :: entropy

text \<open>
  The function literal \<open>UploadFiles\<close> calls for every file header. Its parameter
  \<open>uploadedFiles\<close> shadows the variable of \<open>UploadFiles\<close>; every error path returns
  \<open>nil, err\<close>. The deferred \<open>Close\<close> calls change nothing that is modelled.
\<close>

definition upload_closure ::
  "'fs platform \<Rightarrow> string \<Rightarrow> bool \<Rightarrow> FileHeader \<Rightarrow> UploadedFile list \<Rightarrow> 'fs world \<Rightarrow>
   go_panic + ((UploadedFile list \<times> error option) \<times> 'fs world)" where
  "upload_closure L uploadDir renameFile hdr uploadedFiles w =
     (case Open hdr of
        Inl err \<Rightarrow> Inr (([], Some err), w)
      | Inr infile \<Rightarrow>
     (case File_Read infile 512 of
        Inl err \<Rightarrow> Inr (([], Some err), w)
      | Inr buff \<Rightarrow>
     (let fileType = http_DetectContentType L buff;
          allowed =
            (if length (AllowedFileTypes (tools w)) > 0
             then fold (\<lambda>typeOfFile a. if strings_EqualFold L fileType typeOfFile then True else a)
                    (AllowedFileTypes (tools w)) False
             else True)
      in
      if \<not> allowed then Inr (([], Some (errors_New ''the uploaded file type is not permitted'')), w)
      else
     (case seek_error infile of
        Some err \<Rightarrow> Inr (([], Some err), w)
      | None \<Rightarrow>
     (case (if renameFile
            then (case RandomString (rand w) 25 of
                    Inl p \<Rightarrow> Inl p
                  | Inr s \<Rightarrow> Inr (s @ filepath_Ext L (Filename hdr), advance 25 (rand w)))
            else Inr (Filename hdr, rand w)) of
        Inl p \<Rightarrow> Inl p
      | Inr (newFileName, rnd') \<Rightarrow>
     (case os_Create L (disk w) (filepath_Join L uploadDir newFileName) of
        (Some err, fs') \<Rightarrow> Inr (([], Some err), w\<lparr>disk := fs', rand := rnd'\<rparr>)
      | (None, fs') \<Rightarrow>
     (case io_Copy L fs' (filepath_Join L uploadDir newFileName) (content infile) of
        ((fileSize, Some err), fs'') \<Rightarrow> Inr (([], Some err), w\<lparr>disk := fs'', rand := rnd'\<rparr>)
      | ((fileSize, None), fs'') \<Rightarrow>
          Inr ((uploadedFiles @
                  [\<lparr>NewFileName = newFileName, OriginalFileName = Filename hdr,
                    FileSize = fileSize\<rparr>], None),
               w\<lparr>disk := fs'', rand := rnd'\<rparr>))))))))"

text \<open>
  The two nested \<open>range\<close> loops. A loop either leaves \<open>UploadFiles\<close> through
  \<open>return uploadedFiles, err\<close>, with the value the closure has just assigned to
  \<open>uploadedFiles\<close>, or runs to its end with the list built so far.
\<close>

datatype loop_exit = Return "UploadedFile list" error | Done "UploadedFile list"

fun upload_headers ::
  "'fs platform \<Rightarrow> string \<Rightarrow> bool \<Rightarrow> FileHeader list \<Rightarrow> UploadedFile list \<Rightarrow> 'fs world \<Rightarrow>
   go_panic + (loop_exit \<times> 'fs world)" where
  "upload_headers L uploadDir renameFile [] uploadedFiles w = Inr (Done uploadedFiles, w)"
| "upload_headers L uploadDir renameFile (hdr # fHeaders) uploadedFiles w =
     (case upload_closure L uploadDir renameFile hdr uploadedFiles w of
        Inl p \<Rightarrow> Inl p
      | Inr ((uploadedFiles', Some err), w') \<Rightarrow> Inr (Return uploadedFiles' err, w')
      | Inr ((uploadedFiles', None), w') \<Rightarrow>
          upload_headers L uploadDir renameFile fHeaders uploadedFiles' w')"

fun upload_fields ::
  "'fs platform \<Rightarrow> string \<Rightarrow> bool \<Rightarrow> (string \<times> FileHeader list) list \<Rightarrow> UploadedFile list \<Rightarrow>
   'fs world \<Rightarrow> go_panic + (loop_exit \<times> 'fs world)" where
  "upload_fields L uploadDir renameFile [] uploadedFiles w = Inr (Done uploadedFiles, w)"
| "upload_fields L uploadDir renameFile ((name, fHeaders) # rest) uploadedFiles w =
     (case upload_headers L uploadDir renameFile fHeaders uploadedFiles w of
        Inl p \<Rightarrow> Inl p
      | Inr (Return uploadedFiles' err, w') \<Rightarrow> Inr (Return uploadedFiles' err, w')
      | Inr (Done uploadedFiles', w') \<Rightarrow>
          upload_fields L uploadDir renameFile rest uploadedFiles' w')"

definition UploadFiles ::
  "'fs platform \<Rightarrow> Request \<Rightarrow> string \<Rightarrow> bool list \<Rightarrow> 'fs world \<Rightarrow>
   go_panic + ((UploadedFile list \<times> error option) \<times> 'fs world)" where
  "UploadFiles L r uploadDir rename w =
     (let renameFile = (if length rename > 0 then rename ! 0 else True);
          t = (if MaxFileSize (tools w) = 0
               then (tools w)\<lparr>MaxFileSize := 1024 * 1024 * 1024\<rparr> else tools w);
          w1 = w\<lparr>tools := t\<rparr>
      in
      case CreateDirIfNotExists L uploadDir (disk w1) of
        (Some err, fs') \<Rightarrow> Inr (([], Some err), w1\<lparr>disk := fs'\<rparr>)
      | (None, fs') \<Rightarrow>
     (case ParseMultipartForm r (MaxFileSize t) of
        Some err \<Rightarrow>
          Inr (([], Some (errors_New ''the uploaded file is too big'')), w1\<lparr>disk := fs'\<rparr>)
      | None \<Rightarrow>
     (case upload_fields L uploadDir renameFile (MultipartForm_File r) [] (w1\<lparr>disk := fs'\<rparr>) of
        Inl p \<Rightarrow> Inl p
      | Inr (Return uploadedFiles err, w') \<Rightarrow> Inr ((uploadedFiles, Some err), w')
      | Inr (Done uploadedFiles, w') \<Rightarrow> Inr ((uploadedFiles, None), w'))))"

text \<open>
  \<open>UploadOneFile\<close> returns \<open>files[0]\<close> when \<open>UploadFiles\<close> reports no error; the index
  expression panics when \<open>files\<close> is empty.
\<close>

definition UploadOneFile ::
  "'fs platform \<Rightarrow> Request \<Rightarrow> string \<Rightarrow> bool list \<Rightarrow> 'fs world \<Rightarrow>
   go_panic + ((UploadedFile option \<times> error option) \<times> 'fs world)" where
  "UploadOneFile L request uploadDir rename w =
     (let renameFile = (if length rename > 0 then rename ! 0 else True)
      in
      case UploadFiles L request uploadDir [renameFile] w of
        Inl p \<Rightarrow> Inl p
      | Inr ((files, Some err), w') \<Rightarrow> Inr ((None, Some err), w')
      | Inr ((files, None), w') \<Rightarrow>
          if 0 < length files then Inr ((Some (files ! 0), None), w')
          else Inl (IndexOutOfRange 0 (length files)))"

section \<open>A small platform to run the operations on\<close>

text \<open>
  An instance of \<open>platform\<close> on which the operations can be evaluated: a file system that is
  a list of named nodes, the newest binding first, and that is either writable or mounted
  read-only. A path is one name; \<open>toy_Ext\<close> follows \<open>filepath.Ext\<close> (the suffix from the last
  dot of the last path element), content sniffing knows the GIF signature and falls back
  to plain text, and \<open>toy_EqualFold\<close> compares ASCII strings without regard to case.
\<close>

datatype toy_node = ToyDir nat | ToyFile string

type_synonym toy_fs = "(string \<times> toy_node) list"

fun ext_scan :: "string \<Rightarrow> string \<Rightarrow> string" where
  "ext_scan [] acc = []"
| "ext_scan (c # cs) acc =
     (if c = CHR ''/'' then [] else if c = CHR ''.'' then c # acc else ext_scan cs (c # acc))"

definition toy_Ext :: "string \<Rightarrow> string" where
  "toy_Ext p = ext_scan (rev p) []"

definition ascii_lower :: "char \<Rightarrow> char" where
  "ascii_lower c =
     (if (65::nat) \<le> of_char c \<and> of_char c \<le> (90::nat) then char_of (of_char c + (32::nat)) else c)"

definition toy_EqualFold :: "string \<Rightarrow> string \<Rightarrow> bool" where
  "toy_EqualFold a b \<longleftrightarrow> map ascii_lower a = map ascii_lower b"

definition toy_Stat :: "toy_fs \<Rightarrow> string \<Rightarrow> error option" where
  "toy_Stat fs p =
     (case map_of fs p of
        None \<Rightarrow> Some (os_ErrNotExist (''stat '' @ p @ '': no such file or directory''))
      | Some n \<Rightarrow> None)"

definition toy_MkdirAll :: "bool \<Rightarrow> toy_fs \<Rightarrow> string \<Rightarrow> nat \<Rightarrow> error option \<times> toy_fs" where
  "toy_MkdirAll read_only fs p perm =
     (case map_of fs p of
        Some (ToyDir m) \<Rightarrow> (None, fs)
      | Some (ToyFile c) \<Rightarrow> (Some (os_OtherError ''not a directory''), fs)
      | None \<Rightarrow>
          if read_only then (Some (os_OtherError ''read-only file system''), fs)
          else (None, (p, ToyDir perm) # fs))"

definition toy_Create :: "bool \<Rightarrow> toy_fs \<Rightarrow> string \<Rightarrow> error option \<times> toy_fs" where
  "toy_Create read_only fs p =
     (if read_only then (Some (os_OtherError ''read-only file system''), fs)
      else (None, (p, ToyFile []) # fs))"

definition toy_Copy :: "toy_fs \<Rightarrow> string \<Rightarrow> string \<Rightarrow> (int \<times> error option) \<times> toy_fs" where
  "toy_Copy fs dst src = ((int (length src), None), (dst, ToyFile src) # fs)"

definition toy_DetectContentType :: "string \<Rightarrow> string" where
  "toy_DetectContentType buff =
     (if take 6 buff = ''GIF89a'' then ''image/gif'' else ''text/plain; charset=utf-8'')"

definition toy_platform :: "bool \<Rightarrow> toy_fs platform" where
  "toy_platform read_only =
     \<lparr>os_Stat = toy_Stat,
      os_MkdirAll = toy_MkdirAll read_only,
      os_Create = toy_Create read_only,
      io_Copy = toy_Copy,
      filepath_Join = (\<lambda>a b. a @ ''/'' @ b),
      filepath_Ext = toy_Ext,
      http_DetectContentType = toy_DetectContentType,
      strings_EqualFold = toy_EqualFold\<rparr>"

text \<open>Two file parts, a GIF image and a text file, sent under one field name.\<close>

definition gif_part :: FileHeader where
  "gif_part = \<lparr>Filename = ''a.gif'',
     Open = Inr \<lparr>content = ''GIF89a-pixels'', read_error = None, seek_error = None\<rparr>\<rparr>"

definition text_part :: FileHeader where
  "text_part = \<lparr>Filename = ''b.txt'',
     Open = Inr \<lparr>content = ''hello'', read_error = None, seek_error = None\<rparr>\<rparr>"

definition two_part_request :: Request where
  "two_part_request =
     \<lparr>Body = ''--x (a.gif) --x (b.txt) --x--'',
      ParseMultipartForm = (\<lambda>maxMemory. None),
      MultipartForm_File = [(''files'', [gif_part, text_part])]\<rparr>"

text \<open>A well-formed multipart request that carries no file part.\<close>

definition no_file_request :: Request where
  "no_file_request =
     \<lparr>Body = ''--x--'', ParseMultipartForm = (\<lambda>maxMemory. None), MultipartForm_File = []\<rparr>"

text \<open>
  A request that is no multipart form: its five-byte body is far below any cap, and the
  parse fails with \<open>http.ErrMissingBoundary\<close>.
\<close>

definition http_ErrMissingBoundary :: error where
  "http_ErrMissingBoundary = errors_New ''no multipart boundary param in Content-Type''"

definition malformed_request :: Request where
  "malformed_request =
     \<lparr>Body = ''hello'',
      ParseMultipartForm = (\<lambda>maxMemory. Some http_ErrMissingBoundary),
      MultipartForm_File = []\<rparr>"

definition gif_only :: Tools where
  "gif_only = \<lparr>MaxFileSize = 0, AllowedFileTypes = [''image/gif''], MaxJSONSize = 0,
     AllowUnknownFields = False\<rparr>"

definition start_world :: "toy_fs world" where
  "start_world = \<lparr>tools = gif_only, disk = [], rand = (\<lambda>i. Some 18446744073709551557)\<rparr>"

section \<open>The JSON codec\<close>

text \<open>
  \<open>err.Error()\<close>, the message of an error. An error carries its message, except the ones
  \<open>fmt.Errorf\<close> builds, whose message is the formatted string; \<open>sprintf\<close> is \<open>fmt.Sprintf\<close>.
\<close>

fun Error_string :: "(string \<Rightarrow> fmt_arg list \<Rightarrow> string) \<Rightarrow> error \<Rightarrow> string" where
  "Error_string sprintf (errors_New msg) = msg"
| "Error_string sprintf (fmt_Errorf format args) = sprintf format args"
| "Error_string sprintf io_EOF = ''EOF''"
| "Error_string sprintf io_ErrUnexpectedEOF = ''unexpected EOF''"
| "Error_string sprintf (json_SyntaxError msg off) = msg"
| "Error_string sprintf (json_UnmarshalTypeError msg field off) = msg"
| "Error_string sprintf (json_InvalidUnmarshalError msg) = msg"
| "Error_string sprintf (os_ErrNotExist msg) = msg"
| "Error_string sprintf (os_OtherError msg) = msg"

definition strings_HasPrefix :: "string \<Rightarrow> string \<Rightarrow> bool" where
  "strings_HasPrefix s pre \<longleftrightarrow> length pre \<le> length s \<and> take (length pre) s = pre"

definition strings_TrimPrefix :: "string \<Rightarrow> string \<Rightarrow> string" where
  "strings_TrimPrefix s pre = (if strings_HasPrefix s pre then drop (length pre) s else s)"

text \<open>
  The decoder of \<open>encoding/json\<close> is a parameter: \<open>json_NewDecoder body n\<close> is a decoder on
  \<open>http.MaxBytesReader(writer, body, n)\<close>, and \<open>json_Decode\<close> returns the error of one
  \<open>Decode\<close> call and the decoder after it. The target of a call is the caller's \<open>data\<close> or
  the empty struct; what is stored through the target is not modelled.
\<close>

datatype decode_target = CallerData | EmptyStruct

record 'd json_library =
  json_NewDecoder :: "string \<Rightarrow> int \<Rightarrow> 'd"
  json_DisallowUnknownFields :: "'d \<Rightarrow> 'd"
  json_Decode :: "'d \<Rightarrow> decode_target \<Rightarrow> error option \<times> 'd"
  fmt_Sprintf :: "string \<Rightarrow> fmt_arg list \<Rightarrow> string"

text \<open>The \<open>switch\<close> of \<open>ReadJSON\<close> on the error of the first \<open>Decode\<close>, case by case in its order.\<close>

definition decode_error_switch :: "'d json_library \<Rightarrow> int \<Rightarrow> error \<Rightarrow> error" where
  "decode_error_switch J maxBytes err =
     (case err of
        json_SyntaxError msg off \<Rightarrow>
          fmt_Errorf ''body contains badly-formed JSON (at character %d)'' [ArgInt off]
      | _ \<Rightarrow>
     if err = io_ErrUnexpectedEOF then errors_New ''body contains badly-formed JSON''
     else
     (case err of
        json_UnmarshalTypeError msg field off \<Rightarrow>
          if field \<noteq> []
          then fmt_Errorf ''body contains incorrect JSON type for field %q'' [ArgString field]
          else fmt_Errorf ''body contains incorrect JSON type (at character %d)'' [ArgInt off]
      | _ \<Rightarrow>
     if err = io_EOF then errors_New ''body must not be empty''
     else if strings_HasPrefix (Error_string (fmt_Sprintf J) err) ''json: unknown field''
     then fmt_Errorf ''body contains unknown key %s''
            [ArgString (strings_TrimPrefix (Error_string (fmt_Sprintf J) err) ''json: unknown field'')]
     else if Error_string (fmt_Sprintf J) err = ''http: request body too large''
     then fmt_Errorf ''body must not be larger than %d'' [ArgInt maxBytes]
     else
     (case err of
        json_InvalidUnmarshalError msg \<Rightarrow>
          fmt_Errorf ''error unmarshalling JSON: %s'' [ArgString (Error_string (fmt_Sprintf J) err)]
      | _ \<Rightarrow> err)))"

text \<open>
  The start of \<open>ReadJSON\<close>: the byte limit, and the decoder on the limited body with
  unknown fields disallowed unless the \<open>Tools\<close> value allows them.
\<close>

definition json_maxBytes :: "Tools \<Rightarrow> int" where
  "json_maxBytes t = (if MaxJSONSize t \<noteq> 0 then MaxJSONSize t else 1024 * 1024)"

definition open_decoder :: "'d json_library \<Rightarrow> Tools \<Rightarrow> Request \<Rightarrow> 'd" where
  "open_decoder J t request =
     (let decode = json_NewDecoder J (Body request) (json_maxBytes t)
      in if \<not> AllowUnknownFields t then json_DisallowUnknownFields J decode else decode)"

definition ReadJSON :: "'d json_library \<Rightarrow> Tools \<Rightarrow> Request \<Rightarrow> error option" where
  "ReadJSON J t request =
     (case json_Decode J (open_decoder J t request) CallerData of
        (Some err, decode') \<Rightarrow> Some (decode_error_switch J (json_maxBytes t) err)
      | (None, decode') \<Rightarrow>
     (case json_Decode J decode' EmptyStruct of
        (err, decode'') \<Rightarrow>
          if err \<noteq> Some io_EOF then Some (errors_New ''body must contain only one JSON value'')
          else None))"

text \<open>
  The response writer: its header map, the status code once \<open>WriteHeader\<close> has been called,
  the bytes written, and the error its \<open>Write\<close> returns (\<open>None\<close> on a working connection).
  Only the first \<open>WriteHeader\<close> counts, and a \<open>Write\<close> before any \<open>WriteHeader\<close> sends 200.
\<close>

type_synonym Header = "string \<rightharpoonup> string list"

record ResponseWriter =
  rw_Header :: Header
  rw_Code :: "int option"
  rw_Written :: string
  rw_write_error :: "error option"

definition WriteHeader :: "ResponseWriter \<Rightarrow> int \<Rightarrow> ResponseWriter" where
  "WriteHeader w status = (if rw_Code w = None then w\<lparr>rw_Code := Some status\<rparr> else w)"

definition Write :: "ResponseWriter \<Rightarrow> string \<Rightarrow> error option \<times> ResponseWriter" where
  "Write w out =
     (case rw_write_error w of
        Some err \<Rightarrow> (Some err, w)
      | None \<Rightarrow> (None, (WriteHeader w 200)\<lparr>rw_Written := rw_Written w @ out\<rparr>))"

text \<open>\<open>Header.Set(key, value)\<close> for a key that is in canonical form already, as \<open>Content-Type\<close> is.\<close>

definition Header_Set :: "Header \<Rightarrow> string \<Rightarrow> string \<Rightarrow> Header" where
  "Header_Set h key v = h(key \<mapsto> [v])"

text \<open>
  \<open>marshal\<close> is \<open>json.Marshal\<close>. The loop \<open>for key, value := range headers[0]\<close> stores every
  entry of the caller's map into the writer's map; the keys of a map differ, so the order
  of the visits does not matter and the loop is the override \<open>++\<close> of the two maps.
\<close>

definition WriteJSON ::
  "('a \<Rightarrow> error + string) \<Rightarrow> ResponseWriter \<Rightarrow> int \<Rightarrow> 'a \<Rightarrow> Header list \<Rightarrow>
   error option \<times> ResponseWriter" where
  "WriteJSON marshal writer status data headers =
     (case marshal data of
        Inl err \<Rightarrow> (Some err, writer)
      | Inr out \<Rightarrow>
     (let w1 = (if length headers > 0
                then writer\<lparr>rw_Header := rw_Header writer ++ (headers ! 0)\<rparr> else writer);
          w2 = w1\<lparr>rw_Header := Header_Set (rw_Header w1) ''Content-Type'' ''application/json''\<rparr>;
          w3 = WriteHeader w2 status
      in
      case Write w3 out of
        (Some err, w4) \<Rightarrow> (Some err, w4)
      | (None, w4) \<Rightarrow> (None, w4)))"

section \<open>The remote JSON push\<close>

text \<open>
  A response and its body: the bytes nobody has read yet and whether \<open>Close\<close> has been
  called. A client is what its \<open>Do\<close> returns for a request; a nil \<open>*http.Client\<close> is \<open>None\<close>,
  and calling \<open>Do\<close> on it dereferences nil. \<open>newRequest\<close> is \<open>http.NewRequest\<close> and
  \<open>defaultClient\<close> is the client \<open>&http.Client{}\<close>.
\<close>

record ResponseBody =
  unread :: string
  body_closed :: bool

record Response =
  StatusCode :: int
  resp_Body :: ResponseBody

record ClientRequest =
  Method :: string
  URL :: string
  req_Header :: Header
  req_Body :: string

type_synonym Client = "ClientRequest \<Rightarrow> error + Response"

definition Close :: "ResponseBody \<Rightarrow> ResponseBody" where
  "Close b = b\<lparr>body_closed := True\<rparr>"

text \<open>
  The deferred \<open>response.Body.Close()\<close> runs as the function returns; the caller holds the
  same response through the pointer, so the response it receives has its body closed.
\<close>

definition PushJSONToRemote ::
  "('a \<Rightarrow> error + string) \<Rightarrow> (string \<Rightarrow> string \<Rightarrow> string \<Rightarrow> error + ClientRequest) \<Rightarrow> Client \<Rightarrow>
   string \<Rightarrow> 'a \<Rightarrow> Client option list \<Rightarrow> go_panic + (Response option \<times> int \<times> error option)" where
  "PushJSONToRemote marshal newRequest defaultClient uri data client =
     (case marshal data of
        Inl err \<Rightarrow> Inr (None, 0, Some err)
      | Inr jsonData \<Rightarrow>
     (let httpClient = (if length client > 0 then client ! 0 else Some defaultClient)
      in
      case newRequest ''POST'' uri jsonData of
        Inl err \<Rightarrow> Inr (None, 0, Some err)
      | Inr request \<Rightarrow>
     (let request' = request\<lparr>req_Header := Header_Set (req_Header request)
                                 ''Content-Type'' ''application/json''\<rparr>
      in
      case httpClient of
        None \<Rightarrow> Inl NilPointerDereference
      | Some do \<Rightarrow>
     (case do request' of
        Inl err \<Rightarrow> Inr (None, 0, Some err)
      | Inr response \<Rightarrow>
          Inr (Some (response\<lparr>resp_Body := Close (resp_Body response)\<rparr>),
               StatusCode response, None)))))"

text \<open>
  Instances to run the codec and the push on: a decoder that reads the body as a row of
  empty JSON objects \<open>{}\<close> and reports a body beyond the limit, a marshaller of values that
  are JSON text already, and the client of the repository's test, which answers every
  request with status 200 and the open body \<open>ok\<close>.
\<close>

record toy_decoder =
  input :: string
  over_limit :: bool

definition toy_Decode :: "toy_decoder \<Rightarrow> decode_target \<Rightarrow> error option \<times> toy_decoder" where
  "toy_Decode d target =
     (if over_limit d then (Some (errors_New ''http: request body too large''), d)
      else if input d = [] then (Some io_EOF, d)
      else if take 2 (input d) = ''{}'' then (None, d\<lparr>input := drop 2 (input d)\<rparr>)
      else (Some (json_SyntaxError ''invalid character'' 1), d))"

definition toy_json :: "toy_decoder json_library" where
  "toy_json =
     \<lparr>json_NewDecoder = (\<lambda>body n. \<lparr>input = body, over_limit = (n < int (length body))\<rparr>),
      json_DisallowUnknownFields = (\<lambda>d. d),
      json_Decode = toy_Decode,
      fmt_Sprintf = (\<lambda>format args. format)\<rparr>"

definition json_request :: "string \<Rightarrow> Request" where
  "json_request body =
     \<lparr>Body = body, ParseMultipartForm = (\<lambda>maxMemory. Some http_ErrMissingBoundary),
      MultipartForm_File = []\<rparr>"

definition toy_Marshal :: "string \<Rightarrow> error + string" where
  "toy_Marshal text = Inr text"

definition toy_NewRequest :: "string \<Rightarrow> string \<Rightarrow> string \<Rightarrow> error + ClientRequest" where
  "toy_NewRequest method uri body =
     (if uri = [] then Inl (errors_New ''empty url'')
      else Inr \<lparr>Method = method, URL = uri, req_Header = Map.empty, req_Body = body\<rparr>)"

definition test_client :: Client where
  "test_client request =
     Inr \<lparr>StatusCode = 200, resp_Body = \<lparr>unread = ''ok'', body_closed = False\<rparr>\<rparr>"

definition recorder :: ResponseWriter where
  "recorder = \<lparr>rw_Header = Map.empty, rw_Code = None, rw_Written = [], rw_write_error = None\<rparr>"

section \<open>Properties of Slugify\<close>

lemma ReplaceAllString_class_prefix:
  "ReplaceAllString cs r = takeWhile in_class cs @ ReplaceAllString (dropWhile in_class cs) r"
  by (induction cs) auto

lemma ReplaceAllString_runs:
  "ReplaceAllString s [hyphen] = concat (map hyphenate_run (maximal_runs in_class s))"
proof (induction in_class s rule: maximal_runs.induct)
  case 1
  then show ?case by simp
next
  case (2 x xs)
  show ?case
  proof (cases "in_class x")
    case True
    then have eq: "(\<lambda>y. in_class y = in_class x) = in_class" by auto
    from 2 have IH: "ReplaceAllString (dropWhile in_class xs) [hyphen] =
        concat (map hyphenate_run (maximal_runs in_class (dropWhile in_class xs)))"
      by (simp add: eq)
    have "ReplaceAllString (x # xs) [hyphen] = x # ReplaceAllString xs [hyphen]"
      using True by simp
    also have "\<dots> = x # takeWhile in_class xs @ ReplaceAllString (dropWhile in_class xs) [hyphen]"
      using ReplaceAllString_class_prefix [of xs "[hyphen]"] by simp
    finally show ?thesis
      using True by (simp add: IH eq hyphenate_run_def)
  next
    case False
    then have eq: "(\<lambda>y. in_class y = in_class x) = (\<lambda>y. \<not> in_class y)" by auto
    from 2 have IH: "ReplaceAllString (dropWhile (\<lambda>y. \<not> in_class y) xs) [hyphen] =
        concat (map hyphenate_run (maximal_runs in_class (dropWhile (\<lambda>y. \<not> in_class y) xs)))"
      by (simp add: eq)
    show ?thesis
      using False by (simp add: IH eq hyphenate_run_def)
  qed
qed

lemma drop_leading_hyphens_dropWhile:
  "drop_leading_hyphens s = dropWhile (\<lambda>c. c = hyphen) s"
  by (induction s) auto

lemma drop_trailing_hyphens_Nil_iff:
  "drop_trailing_hyphens s = [] \<longleftrightarrow> (\<forall>c \<in> set s. c = hyphen)"
  by (induction s) (auto simp: Let_def)

lemma drop_trailing_hyphens_rev:
  "drop_trailing_hyphens s = rev (dropWhile (\<lambda>c. c = hyphen) (rev s))"
proof (induction s)
  case Nil
  then show ?case by simp
next
  case (Cons c cs)
  have app: "dropWhile (\<lambda>c. c = hyphen) (rev cs @ [c]) =
      (if \<forall>x \<in> set cs. x = hyphen then dropWhile (\<lambda>c. c = hyphen) [c]
       else dropWhile (\<lambda>c. c = hyphen) (rev cs) @ [c])"
    by (simp add: dropWhile_append)
  show ?case
  proof (cases "\<forall>x \<in> set cs. x = hyphen")
    case True
    then have "drop_trailing_hyphens cs = []"
      by (simp add: drop_trailing_hyphens_Nil_iff)
    with True app show ?thesis by (simp add: Let_def)
  next
    case False
    then have ne: "drop_trailing_hyphens cs \<noteq> []"
      by (simp add: drop_trailing_hyphens_Nil_iff)
    with False app Cons show ?thesis by (simp add: Let_def)
  qed
qed

lemma strings_Trim_hyphen:
  "strings_Trim s [hyphen] = drop_trailing_hyphens (drop_leading_hyphens s)"
  by (simp add: strings_Trim_def drop_trailing_hyphens_rev drop_leading_hyphens_dropWhile)

text \<open>
  C6. For every input, \<open>Slugify\<close> fails with \<open>EmptyInput\<close> on the empty string; otherwise
  it lower-cases the input, replaces every maximal run of runes that are not an ASCII
  lower-case letter or digit by one hyphen and trims the hyphens at both ends
  (\<open>slug_transform\<close>), failing with \<open>EmptyResult\<close> when that yields the empty string. The
  sentence of the specification's example maps to its slug.
\<close>

theorem Slugify_refines_spec:
  "Slugify uni s =
     (if s = [] then ([], Some EmptyInput)
      else if slug_transform uni s = [] then ([], Some EmptyResult)
      else (slug_transform uni s, None))
   \<and> Slugify uni (runes ''now, is the time to GO HIT the gym!! and break***some+++records?!'')
       = (runes ''now-is-the-time-to-go-hit-the-gym-and-break-some-records'', None)"
proof
  show "Slugify uni s =
     (if s = [] then ([], Some EmptyInput)
      else if slug_transform uni s = [] then ([], Some EmptyResult)
      else (slug_transform uni s, None))"
    by (simp add: Slugify_def slug_transform_def strings_Trim_hyphen ReplaceAllString_runs
        strings_ToLower_def Let_def EmptyInput_def EmptyResult_def)
  show "Slugify uni (runes ''now, is the time to GO HIT the gym!! and break***some+++records?!'')
       = (runes ''now-is-the-time-to-go-hit-the-gym-and-break-some-records'', None)"
    by (simp add: Slugify_def runes_def strings_ToLower_def unicode_ToLower_def in_class_def
        strings_Trim_def hyphen_def)
qed

theorem Slugify_refines_spec_witness:
  "slug_transform id (runes ''This is a test'') = runes ''this-is-a-test''"
proof -
  have run: "Slugify id (runes ''This is a test'') = (runes ''this-is-a-test'', None)"
    by (simp add: Slugify_def runes_def strings_ToLower_def unicode_ToLower_def in_class_def
        strings_Trim_def hyphen_def)
  have ne: "runes ''This is a test'' \<noteq> []"
    by (simp add: runes_def)
  from Slugify_refines_spec [of id "runes ''This is a test''"] run ne show ?thesis
    by (simp split: if_splits)
qed

section \<open>Properties of RandomString\<close>

lemma length_randomStringSource: "length randomStringSource = 64"
  by (simp add: randomStringSource_def)

lemma RandomString_loop_total:
  "\<forall>i < k. rnd i \<noteq> None \<Longrightarrow>
   \<exists>s. RandomString_loop rnd k = Inr s \<and> length s = k \<and> set s \<subseteq> set randomStringSource"
proof (induction k arbitrary: rnd)
  case 0
  then show ?case by simp
next
  case (Suc k)
  from Suc.prems obtain p where p: "rnd 0 = Some p" by auto
  have "\<forall>i < k. advance 1 rnd i \<noteq> None"
    using Suc.prems by (simp add: advance_def)
  from Suc.IH [OF this] obtain s where s: "RandomString_loop (advance 1 rnd) k = Inr s"
    "length s = k" "set s \<subseteq> set randomStringSource" by blast
  have "randomStringSource ! (Uint64 p mod length randomStringSource) \<in> set randomStringSource"
    by (rule nth_mem) (simp add: length_randomStringSource)
  with p s show ?case by simp
qed

text \<open>
  C7. For every \<open>n \<ge> 0\<close>, when the \<open>n\<close> draws from the entropy source succeed,
  \<open>RandomString n\<close> returns a string of exactly \<open>n\<close> characters, each of them a character of
  the 64-character alphabet \<open>randomStringSource\<close>.
\<close>

theorem RandomString_length_alphabet:
  assumes "0 \<le> n" and "\<forall>i < nat n. rnd i \<noteq> None"
  shows "\<exists>s. RandomString rnd n = Inr s \<and> int (length s) = n \<and>
             set s \<subseteq> set randomStringSource"
  using RandomString_loop_total [OF assms(2)] assms(1)
  by (auto simp: RandomString_def)

theorem RandomString_length_alphabet_witness:
  "\<exists>s. RandomString (\<lambda>i. Some 18446744073709551557) 3 = Inr s \<and> int (length s) = 3 \<and>
       set s \<subseteq> set randomStringSource"
  using RandomString_length_alphabet [of 3 "\<lambda>i. Some 18446744073709551557"] by simp

lemma prime_of_64_bits_is_rand_Prime_result:
  assumes "is_prime p" and "2 ^ 63 \<le> p" and "p < 2 ^ 64"
  shows "rand_Prime_result 64 p"
proof -
  have "odd p"
  proof
    assume "even p"
    then have "2 dvd p" by simp
    with assms(1) have "(2::nat) = 1 \<or> 2 = p" unfolding is_prime_def by blast
    with assms(2) show False by simp
  qed
  with assms(2,3) show ?thesis by (simp add: rand_Prime_result_def)
qed

lemma odd_position_chars:
  "\<forall>m \<in> set [0..<32]. randomStringSource ! (2 * m + 1) = odd_positions ! m"
  by code_simp

lemma odd_index_in_odd_positions:
  assumes "odd j" "j < 64"
  shows "randomStringSource ! j \<in> set odd_positions"
proof -
  from assms obtain m where m: "j = 2 * m + 1" by (auto elim: oddE)
  with assms have lt: "m < 32" by simp
  then have "randomStringSource ! (2 * m + 1) = odd_positions ! m"
    using odd_position_chars by simp
  moreover have "odd_positions ! m \<in> set odd_positions"
    by (rule nth_mem) (use lt in \<open>simp add: odd_positions_def\<close>)
  ultimately show ?thesis using m by simp
qed

lemma prime_draw_index_odd:
  assumes "rand_Prime_result 64 p"
  shows "odd (Uint64 p mod length randomStringSource)" 
proof -
  from assms have "p < 2 ^ 64" "odd p" by (simp_all add: rand_Prime_result_def)
  then have "Uint64 p = p" by (simp add: Uint64_def)
  moreover have "odd (p mod 64)" using \<open>odd p\<close>
    by presburger
  ultimately show ?thesis by (simp add: length_randomStringSource)
qed

lemma RandomString_loop_odd:
  "\<forall>i p. rnd i = Some p \<longrightarrow> rand_Prime_result 64 p \<Longrightarrow>
   RandomString_loop rnd k = Inr s \<Longrightarrow> set s \<subseteq> set odd_positions"
proof (induction k arbitrary: rnd s)
  case 0
  then show ?case by simp
next
  case (Suc k)
  from Suc.prems(2) obtain p s' where p: "rnd 0 = Some p"
    and s': "RandomString_loop (advance 1 rnd) k = Inr s'"
    and s: "s = randomStringSource ! (Uint64 p mod length randomStringSource) # s'"
    by (auto split: option.splits sum.splits)
  have "\<forall>i p. advance 1 rnd i = Some p \<longrightarrow> rand_Prime_result 64 p"
    using Suc.prems(1) by (simp add: advance_def)
  from Suc.IH [OF this s'] have "set s' \<subseteq> set odd_positions" .
  moreover from Suc.prems(1) p have "rand_Prime_result 64 p" by blast
  then have "randomStringSource ! (Uint64 p mod length randomStringSource) \<in> set odd_positions"
    using prime_draw_index_odd [of p]
    by (intro odd_index_in_odd_positions) (simp_all add: length_randomStringSource)
  ultimately show ?case using s by simp
qed

text \<open>
  C2. Every value \<open>rand.Prime\<close> returns is odd, so the index \<open>x % 64\<close> is odd: whatever the
  entropy source delivers, \<open>RandomString\<close> only ever yields the 32 characters at the odd
  positions of the alphabet, and never the character \<open>a\<close> (nor any other character at an even
  position). The 64 characters are not all possible outcomes.
\<close>

theorem RandomString_odd_positions_only:
  assumes "\<forall>i p. rnd i = Some p \<longrightarrow> rand_Prime_result 64 p"
    and "RandomString rnd n = Inr s"
  shows "set s \<subseteq> set odd_positions \<and> CHR ''a'' \<notin> set s"
proof -
  from assms(2) have "RandomString_loop rnd (nat n) = Inr s"
    by (simp add: RandomString_def split: if_splits)
  with assms(1) have "set s \<subseteq> set odd_positions" by (rule RandomString_loop_odd)
  moreover have "CHR ''a'' \<notin> set odd_positions" by (simp add: odd_positions_def)
  ultimately show ?thesis by blast
qed

theorem RandomString_odd_positions_only_witness:
  "RandomString (\<lambda>i. Some 18446744073709551557) 3 = Inr ''fff'' \<and>
   set ''fff'' \<subseteq> set odd_positions \<and> CHR ''a'' \<notin> set ''fff''"
proof -
  have idx: "Uint64 18446744073709551557 mod length randomStringSource = 5"
    by (simp add: Uint64_def randomStringSource_def)
  have c: "randomStringSource ! 5 = CHR ''f''"
    by (simp add: randomStringSource_def)
  have a: "\<And>k c. advance k (\<lambda>i. c) = (\<lambda>i. c)"
    by (simp add: advance_def)
  have run: "RandomString (\<lambda>i. Some 18446744073709551557) 3 = Inr ''fff''"
    by (simp add: RandomString_def numeral_3_eq_3 a idx c)
  have draws: "\<forall>i p. (\<lambda>i. Some 18446744073709551557) i = Some p \<longrightarrow> rand_Prime_result 64 p"
    by (simp add: rand_Prime_result_def)
  from RandomString_odd_positions_only [OF draws run] run show ?thesis by simp
qed

section \<open>Properties of the upload pipeline\<close>

lemmas toy_defs = toy_platform_def toy_Stat_def toy_MkdirAll_def toy_Create_def toy_Copy_def
  toy_DetectContentType_def toy_EqualFold_def ascii_lower_def toy_Ext_def

lemma upload_closure_shape:
  "(case upload_closure L uploadDir renameFile hdr uploadedFiles w of
      Inl p \<Rightarrow> True
    | Inr ((files, err), w') \<Rightarrow> err \<noteq> None \<longrightarrow> files = [])"
  by (simp add: upload_closure_def Let_def split: sum.split option.split prod.split)

lemma upload_closure_error_nil:
  "upload_closure L uploadDir renameFile hdr uploadedFiles w = Inr ((files, Some err), w')
   \<Longrightarrow> files = []"
  using upload_closure_shape [of L uploadDir renameFile hdr uploadedFiles w] by simp

lemma upload_headers_Return_nil:
  "upload_headers L uploadDir renameFile fHeaders uploadedFiles w = Inr (Return files err, w')
   \<Longrightarrow> files = []"
proof (induction fHeaders arbitrary: uploadedFiles w)
  case Nil
  then show ?case by simp
next
  case (Cons hdr fHeaders)
  then show ?case
    by (auto split: sum.splits option.splits prod.splits dest: upload_closure_error_nil)
qed

lemma upload_fields_Return_nil:
  "upload_fields L uploadDir renameFile entries uploadedFiles w = Inr (Return files err, w')
   \<Longrightarrow> files = []"
proof (induction entries arbitrary: uploadedFiles w)
  case Nil
  then show ?case by simp
next
  case (Cons f entries)
  then show ?case
    by (cases f) (auto split: sum.splits loop_exit.splits prod.splits dest: upload_headers_Return_nil)
qed


text \<open>
  C1. Whenever \<open>UploadFiles\<close> returns an error, the list it returns with it is empty: the
  closure returns \<open>nil, err\<close>, the assignment stores that nil in \<open>uploadedFiles\<close>, and
  \<open>return uploadedFiles, err\<close> then hands out nil. The records of the files persisted before
  the failing one are not returned. In the run below the first part is written to the
  disk, the second is refused for its type, and the result is the empty list.
\<close>

theorem UploadFiles_error_returns_nil:
  assumes "UploadFiles L r uploadDir rename w = Inr ((files, Some err), w')"
  shows "files = []"
proof (cases "CreateDirIfNotExists L uploadDir (disk w)")
  case (Pair e fs')
  let ?t = "if MaxFileSize (tools w) = 0
            then (tools w)\<lparr>MaxFileSize := 1024 * 1024 * 1024\<rparr> else tools w"
  show ?thesis
  proof (cases e)
    case (Some a)
    with Pair assms show ?thesis
      by (simp add: UploadFiles_def Let_def)
  next
    case None
    note dir = this
    show ?thesis
    proof (cases "ParseMultipartForm r (MaxFileSize ?t)")
      case (Some a)
      with Pair dir assms show ?thesis
        by (simp add: UploadFiles_def Let_def)
    next
      case None
      with Pair dir assms show ?thesis
        by (auto simp: UploadFiles_def Let_def split: sum.splits loop_exit.splits prod.splits
            dest: upload_fields_Return_nil)
    qed
  qed
qed

theorem UploadFiles_error_returns_nil_witness:
  "UploadFiles (toy_platform False) two_part_request ''uploads'' [False] start_world =
     Inr (([], Some (errors_New ''the uploaded file type is not permitted'')),
          start_world\<lparr>tools := gif_only\<lparr>MaxFileSize := 1024 * 1024 * 1024\<rparr>,
            disk := [(''uploads/a.gif'', ToyFile ''GIF89a-pixels''),
                     (''uploads/a.gif'', ToyFile []), (''uploads'', ToyDir 493)]\<rparr>)"
proof -
  obtain files e w' where run:
    "UploadFiles (toy_platform False) two_part_request ''uploads'' [False] start_world =
       Inr ((files, Some e), w')"
    and e: "e = errors_New ''the uploaded file type is not permitted''"
    and w': "w' = start_world\<lparr>tools := gif_only\<lparr>MaxFileSize := 1024 * 1024 * 1024\<rparr>,
            disk := [(''uploads/a.gif'', ToyFile ''GIF89a-pixels''),
                     (''uploads/a.gif'', ToyFile []), (''uploads'', ToyDir 493)]\<rparr>"
    by (simp add: UploadFiles_def CreateDirIfNotExists_def os_IsNotExist_def mode_def
        upload_closure_def File_Read_def two_part_request_def gif_part_def text_part_def
        start_world_def gif_only_def toy_defs Let_def)
  from UploadFiles_error_returns_nil [OF run] have "files = []" .
  with run e w' show ?thesis by simp
qed

lemma upload_fields_no_headers:
  "\<forall>e \<in> set entries. snd e = [] \<Longrightarrow>
   upload_fields L uploadDir renameFile entries uploadedFiles w = Inr (Done uploadedFiles, w)"
  by (induction entries) auto

text \<open>
  C10. For a request whose multipart form parses and holds no file part (the destination
  directory being there or creatable), \<open>UploadFiles\<close> returns the empty list and no error,
  and \<open>UploadOneFile\<close> then indexes position 0 of that empty list: it panics with an index
  out of range and returns no error value.
\<close>

theorem UploadOneFile_no_file_panics:
  assumes "fst (CreateDirIfNotExists L uploadDir (disk w)) = None"
    and "ParseMultipartForm request
           (if MaxFileSize (tools w) = 0 then 1024 * 1024 * 1024 else MaxFileSize (tools w)) = None"
    and "concat (map snd (MultipartForm_File request)) = []"
  shows "UploadOneFile L request uploadDir rename w = Inl (IndexOutOfRange 0 0)"
proof -
  obtain fs' where dir: "CreateDirIfNotExists L uploadDir (disk w) = (None, fs')"
    using assms(1) by (cases "CreateDirIfNotExists L uploadDir (disk w)") simp
  from assms(3) have "\<forall>e \<in> set (MultipartForm_File request). snd e = []" by simp
  note loop = upload_fields_no_headers [OF this]
  have "\<exists>w'. UploadFiles L request uploadDir
          [if length rename > 0 then rename ! 0 else True] w = Inr (([], None), w')"
  proof (cases "MaxFileSize (tools w) = 0")
    case True
    with dir assms(2) show ?thesis by (simp add: UploadFiles_def Let_def loop)
  next
    case False
    with dir assms(2) show ?thesis by (simp add: UploadFiles_def Let_def loop)
  qed
  then show ?thesis
    by (auto simp: UploadOneFile_def Let_def)
qed

theorem UploadOneFile_no_file_panics_witness:
  "UploadOneFile (toy_platform False) no_file_request ''uploads'' [] start_world =
     Inl (IndexOutOfRange 0 0)"
  using UploadOneFile_no_file_panics
    [of "toy_platform False" "''uploads''" start_world no_file_request "[]"]
  by (simp add: CreateDirIfNotExists_def os_IsNotExist_def no_file_request_def start_world_def
      gif_only_def toy_defs)

text \<open>
  C4 (as amended). \<open>UploadFiles\<close> does not tell the failures of the multipart parse apart:
  once the destination directory is there, every error of
  \<open>ParseMultipartForm(maxFileSize)\<close>, whatever it is, makes \<open>UploadFiles\<close> return the empty
  list and the one error \<open>the uploaded file is too big\<close>.
\<close>

theorem UploadFiles_parse_error_too_big:
  assumes "fst (CreateDirIfNotExists L uploadDir (disk w)) = None"
    and "ParseMultipartForm r
           (if MaxFileSize (tools w) = 0 then 1024 * 1024 * 1024 else MaxFileSize (tools w)) = Some e"
  shows "\<exists>w'. UploadFiles L r uploadDir rename w =
           Inr (([], Some (errors_New ''the uploaded file is too big'')), w')"
proof -
  obtain fs' where dir: "CreateDirIfNotExists L uploadDir (disk w) = (None, fs')"
    using assms(1) by (cases "CreateDirIfNotExists L uploadDir (disk w)") simp
  show ?thesis
  proof (cases "MaxFileSize (tools w) = 0")
    case True
    with dir assms(2) show ?thesis by (simp add: UploadFiles_def Let_def)
  next
    case False
    with dir assms(2) show ?thesis by (simp add: UploadFiles_def Let_def)
  qed
qed

theorem UploadFiles_parse_error_too_big_witness:
  "\<exists>w'. UploadFiles (toy_platform False) malformed_request ''uploads'' [] start_world =
           Inr (([], Some (errors_New ''the uploaded file is too big'')), w')"
  using UploadFiles_parse_error_too_big
    [of "toy_platform False" "''uploads''" start_world malformed_request http_ErrMissingBoundary "[]"]
  by (simp add: CreateDirIfNotExists_def os_IsNotExist_def malformed_request_def start_world_def
      gif_only_def toy_defs)

text \<open>
  The claim fails on a request that is no multipart form at all: its body of five bytes
  is below the cap of 1 GiB, the parse fails with \<open>http.ErrMissingBoundary\<close>, and the error
  returned is \<open>the uploaded file is too big\<close>.
\<close>

theorem UploadFiles_too_big_below_cap:
  "UploadFiles (toy_platform False) malformed_request ''uploads'' [] start_world =
     Inr (([], Some (errors_New ''the uploaded file is too big'')),
          start_world\<lparr>tools := gif_only\<lparr>MaxFileSize := 1024 * 1024 * 1024\<rparr>,
            disk := [(''uploads'', ToyDir 493)]\<rparr>)
   \<and> int (length (Body malformed_request)) < 1024 * 1024 * 1024
   \<and> ParseMultipartForm malformed_request (1024 * 1024 * 1024) = Some http_ErrMissingBoundary"
  by (simp add: UploadFiles_def CreateDirIfNotExists_def os_IsNotExist_def mode_def
      malformed_request_def start_world_def gif_only_def toy_defs Let_def)

section \<open>Properties of CreateDirIfNotExists\<close>




section \<open>Properties of the JSON codec and the remote push\<close>

lemmas toy_json_defs = toy_json_def toy_Decode_def json_request_def open_decoder_def
  json_maxBytes_def gif_only_def

text \<open>
  C3. Once the first \<open>Decode\<close> has succeeded, \<open>ReadJSON\<close> calls \<open>Decode\<close> a second time on the
  rest of the stream; it returns the error \<open>body must contain only one JSON value\<close> exactly
  when that second call yields anything but \<open>io.EOF\<close>, and it returns no error when the
  second call yields \<open>io.EOF\<close>, as it does for a body that holds one JSON object.
\<close>

theorem ReadJSON_second_decode:
  assumes "json_Decode J (open_decoder J t request) CallerData = (None, d)"
  shows "(ReadJSON J t request = Some (errors_New ''body must contain only one JSON value'')
            \<longleftrightarrow> fst (json_Decode J d EmptyStruct) \<noteq> Some io_EOF) \<and>
         (fst (json_Decode J d EmptyStruct) = Some io_EOF \<longrightarrow> ReadJSON J t request = None)"
  using assms
  by (cases "json_Decode J d EmptyStruct") (simp add: ReadJSON_def)

theorem ReadJSON_second_decode_witness:
  "ReadJSON toy_json gif_only (json_request ''{}'') = None \<and>
   ReadJSON toy_json gif_only (json_request ''{}{}'') =
     Some (errors_New ''body must contain only one JSON value'')"
proof -
  have one: "json_Decode toy_json (open_decoder toy_json gif_only (json_request ''{}'')) CallerData
      = (None, \<lparr>input = [], over_limit = False\<rparr>)"
    by (simp add: toy_json_defs)
  have two: "json_Decode toy_json (open_decoder toy_json gif_only (json_request ''{}{}'')) CallerData
      = (None, \<lparr>input = ''{}'', over_limit = False\<rparr>)"
    by (simp add: toy_json_defs)
  have "ReadJSON toy_json gif_only (json_request ''{}'') = None"
    using ReadJSON_second_decode [OF one] by (simp add: toy_json_defs)
  moreover have "ReadJSON toy_json gif_only (json_request ''{}{}'') =
      Some (errors_New ''body must contain only one JSON value'')"
    using ReadJSON_second_decode [OF two] by (simp add: toy_json_defs)
  ultimately show ?thesis by simp
qed

lemma rw_Header_Write: "rw_Header (snd (Write w out)) = rw_Header w"
  by (simp add: Write_def WriteHeader_def split: option.split)

lemma rw_Header_WriteHeader: "rw_Header (WriteHeader w status) = rw_Header w"
  by (simp add: WriteHeader_def)

lemma WriteJSON_rw_Header:
  assumes "marshal data = Inr out"
  shows "rw_Header (snd (WriteJSON marshal writer status data headers)) =
     (if length headers > 0 then rw_Header writer ++ (headers ! 0) else rw_Header writer)
       (''Content-Type'' \<mapsto> [''application/json''])"
proof -
  let ?w1 = "if length headers > 0
             then writer\<lparr>rw_Header := rw_Header writer ++ (headers ! 0)\<rparr> else writer"
  let ?w2 = "?w1\<lparr>rw_Header := Header_Set (rw_Header ?w1) ''Content-Type'' ''application/json''\<rparr>"
  have "snd (WriteJSON marshal writer status data headers) = snd (Write (WriteHeader ?w2 status) out)"
    using assms
    by (cases "Write (WriteHeader ?w2 status) out")
       (simp add: WriteJSON_def Let_def split: option.split)
  then show ?thesis
    by (simp add: rw_Header_Write rw_Header_WriteHeader Header_Set_def)
qed

text \<open>
  C5 (as amended). When the payload serialises, \<open>WriteJSON\<close> first stores the caller's
  headers over the writer's, so that a header the caller names replaces the one of that
  name, and then sets \<open>Content-Type\<close> to \<open>application/json\<close>: every header of the caller
  other than \<open>Content-Type\<close> is in the response as the caller gave it, and \<open>Content-Type\<close> is
  always \<open>application/json\<close>, also when the caller supplied one.
\<close>

theorem WriteJSON_header_merge:
  assumes "marshal data = Inr out"
  shows "rw_Header (snd (WriteJSON marshal writer status data headers)) ''Content-Type''
           = Some [''application/json''] \<and>
         (\<forall>key v. 0 < length headers \<and> (headers ! 0) key = Some v \<and> key \<noteq> ''Content-Type'' \<longrightarrow>
            rw_Header (snd (WriteJSON marshal writer status data headers)) key = Some v) \<and>
         (\<forall>key. key \<noteq> ''Content-Type'' \<and> (headers = [] \<or> (headers ! 0) key = None) \<longrightarrow>
            rw_Header (snd (WriteJSON marshal writer status data headers)) key =
              rw_Header writer key)"
  using WriteJSON_rw_Header [of marshal data out writer status headers] assms
  by (auto simp: map_add_def)

theorem WriteJSON_header_merge_witness:
  "rw_Header (snd (WriteJSON toy_Marshal recorder 200 ''{}'' [[''FOO'' \<mapsto> [''BAR'']]])) ''FOO''
     = Some [''BAR''] \<and>
   rw_Header (snd (WriteJSON toy_Marshal recorder 200 ''{}'' [[''FOO'' \<mapsto> [''BAR'']]]))
     ''Content-Type'' = Some [''application/json'']"
proof -
  have m: "toy_Marshal ''{}'' = Inr ''{}''"
    by (simp add: toy_Marshal_def)
  from WriteJSON_header_merge
    [of toy_Marshal "''{}''" "''{}''" recorder 200 "[[''FOO'' \<mapsto> [''BAR'']]]"] m
  show ?thesis by simp
qed

text \<open>
  The claim fails for a caller that supplies \<open>Content-Type: text/plain\<close>: the response
  carries \<open>application/json\<close>, not the caller's value.
\<close>

theorem WriteJSON_overrides_caller_content_type:
  "rw_Header (snd (WriteJSON toy_Marshal recorder 200 ''{}''
      [[''Content-Type'' \<mapsto> [''text/plain'']]])) ''Content-Type'' = Some [''application/json''] \<and>
   rw_Header (snd (WriteJSON toy_Marshal recorder 200 ''{}''
      [[''Content-Type'' \<mapsto> [''text/plain'']]])) ''Content-Type'' \<noteq> Some [''text/plain'']"
  by (simp add: WriteJSON_def toy_Marshal_def recorder_def Header_Set_def WriteHeader_def
      Write_def Let_def)

text \<open>
  C9 (as amended). On success \<open>PushJSONToRemote\<close> returns the response the client gave,
  with its status code and no error; it reads nothing of the body, whose unread bytes are
  as the client left them, but it closes the body before it returns (the deferred
  \<open>Close\<close>): the caller receives a response whose body is closed.
\<close>

theorem PushJSONToRemote_returns_closed_body:
  assumes "marshal data = Inr jsonData"
    and "newRequest ''POST'' uri jsonData = Inr request"
    and "(if length client > 0 then client ! 0 else Some defaultClient) = Some roundTrip"
    and "roundTrip (request\<lparr>req_Header :=
           Header_Set (req_Header request) ''Content-Type'' ''application/json''\<rparr>) = Inr response"
  shows "PushJSONToRemote marshal newRequest defaultClient uri data client =
           Inr (Some (response\<lparr>resp_Body := (resp_Body response)\<lparr>body_closed := True\<rparr>\<rparr>),
                StatusCode response, None)"
  using assms by (simp add: PushJSONToRemote_def Let_def Close_def)

theorem PushJSONToRemote_returns_closed_body_witness:
  "PushJSONToRemote toy_Marshal toy_NewRequest test_client ''http://example.com/some/path''
     ''{}'' [] =
   Inr (Some \<lparr>StatusCode = 200, resp_Body = \<lparr>unread = ''ok'', body_closed = True\<rparr>\<rparr>, 200, None)"
  using PushJSONToRemote_returns_closed_body
    [of toy_Marshal "''{}''" "''{}''" toy_NewRequest "''http://example.com/some/path''"
        "\<lparr>Method = ''POST'', URL = ''http://example.com/some/path'', req_Header = Map.empty,
          req_Body = ''{}''\<rparr>" "[]" test_client test_client
        "\<lparr>StatusCode = 200, resp_Body = \<lparr>unread = ''ok'', body_closed = False\<rparr>\<rparr>"]
  by (simp add: toy_Marshal_def toy_NewRequest_def test_client_def)

text \<open>
  The claim fails on the client of the repository's test: the client hands over an open
  body, and the response \<open>PushJSONToRemote\<close> returns has its body closed.
\<close>

theorem PushJSONToRemote_closes_open_body:
  "test_client \<lparr>Method = ''POST'', URL = ''http://example.com/some/path'',
      req_Header = [''Content-Type'' \<mapsto> [''application/json'']], req_Body = ''{}''\<rparr> =
     Inr \<lparr>StatusCode = 200, resp_Body = \<lparr>unread = ''ok'', body_closed = False\<rparr>\<rparr> \<and>
   PushJSONToRemote toy_Marshal toy_NewRequest test_client ''http://example.com/some/path''
     ''{}'' [Some test_client] =
     Inr (Some \<lparr>StatusCode = 200, resp_Body = \<lparr>unread = ''ok'', body_closed = True\<rparr>\<rparr>, 200, None)"
  by (simp add: PushJSONToRemote_def toy_Marshal_def toy_NewRequest_def test_client_def
      Header_Set_def Close_def Let_def)


end
